theory Spec2Isabelle
  imports Main "HOL-Library.Sublist" "HOL-Library.AList"
begin

section \<open>JavaScript values and objects\<close>

text \<open>
  The SDK is TypeScript compiled to JavaScript, and the code under study reads objects
  by string key (\<^verbatim>\<open>source['item']\<close>, \<^verbatim>\<open>items[i][key]\<close>), coerces with \<^verbatim>\<open>Number\<close> and
  indexes a plain object by a property value. The values are therefore modelled
  untyped, as the engine sees them.

  A number is either \<^verbatim>\<open>NaN\<close> or an integer; the code compares numbers only with the
  integer constants of the \<^verbatim>\<open>ItemTypes\<close> enum.
\<close>

datatype jsnum = JNaN | JInt int

datatype jsval =
    JUndefined
  | JBool bool
  | JNum jsnum
  | JStr string
  | JObj "(string \<times> jsval) list"

text \<open>
  An object is the list of its own enumerable properties in creation order, each key
  once.  Reading an absent key gives \<^verbatim>\<open>undefined\<close>; assigning to an existing key keeps
  its place, assigning to a new key appends it.
\<close>

type_synonym jsobj = "(string \<times> jsval) list"

definition obj_get :: "jsobj \<Rightarrow> string \<Rightarrow> jsval" where
  "obj_get ob k = (case map_of ob k of None \<Rightarrow> JUndefined | Some v \<Rightarrow> v)"

definition obj_has :: "jsobj \<Rightarrow> string \<Rightarrow> bool" where
  "obj_has ob k = (map_of ob k \<noteq> None)"

definition obj_set :: "jsobj \<Rightarrow> string \<Rightarrow> jsval \<Rightarrow> jsobj" where
  "obj_set ob k v = AList.update k v ob"

datatype js_error = TypeError | Error string

subsection \<open>Decimal numerals\<close>

definition digit_char :: "nat \<Rightarrow> char" where
  "digit_char d = ''0123456789'' ! d"

function show_nat :: "nat \<Rightarrow> string" where
  "show_nat n = (if n < 10 then [digit_char n] else show_nat (n div 10) @ [digit_char (n mod 10)])"
  by pat_completeness auto
termination
  by (relation "measure id") auto

declare show_nat.simps [simp del]

definition show_int :: "int \<Rightarrow> string" where
  "show_int i = (if i < 0 then CHR ''-'' # show_nat (nat (- i)) else show_nat (nat i))"

subsection \<open>Coercions\<close>

text \<open>
  \<^verbatim>\<open>String(v)\<close>, as a template literal, a regular expression test and a property
  access apply it.  \<open>JInt i\<close> prints in decimal, as the engine prints an integer below
  \<open>10\<^sup>2\<^sup>1\<close> in magnitude.
\<close>

fun ToString :: "jsval \<Rightarrow> string" where
  "ToString JUndefined = ''undefined''"
| "ToString (JBool b) = (if b then ''true'' else ''false'')"
| "ToString (JNum JNaN) = ''NaN''"
| "ToString (JNum (JInt i)) = show_int i"
| "ToString (JStr s) = s"
| "ToString (JObj ps) = ''[object Object]''"

text \<open>
  \<^verbatim>\<open>Number(v)\<close>.  The numeric value of a string is the engine's floating-point parse,
  which is not modelled: it is the parameter \<open>str2num\<close>.
\<close>

fun Number :: "(string \<Rightarrow> jsnum) \<Rightarrow> jsval \<Rightarrow> jsnum" where
  "Number str2num JUndefined = JNaN"
| "Number str2num (JBool b) = JInt (if b then 1 else 0)"
| "Number str2num (JNum n) = n"
| "Number str2num (JStr s) = str2num s"
| "Number str2num (JObj ps) = JNaN"

subsection \<open>String methods and the regular expressions of the classifier\<close>

text \<open>\<^verbatim>\<open>s.indexOf(pat)\<close>: the first position where \<open>pat\<close> occurs in \<open>s\<close>, or \<open>-1\<close>.\<close>

fun indexOf_from :: "string \<Rightarrow> string \<Rightarrow> nat \<Rightarrow> int" where
  "indexOf_from [] pat i = (if pat = [] then int i else - 1)"
| "indexOf_from (c # cs) pat i = (if prefix pat (c # cs) then int i else indexOf_from cs pat (Suc i))"

definition indexOf :: "string \<Rightarrow> string \<Rightarrow> int" where
  "indexOf s pat = indexOf_from s pat 0"

text \<open>
  \<^verbatim>\<open>v.indexOf(pat)\<close> on an arbitrary value: only a string has the method here; on
  \<^verbatim>\<open>undefined\<close> the property access throws, on a number, a boolean or a plain object the
  call of the missing method throws.
\<close>

fun indexOf_method :: "jsval \<Rightarrow> string \<Rightarrow> js_error + int" where
  "indexOf_method (JStr s) pat = Inr (indexOf s pat)"
| "indexOf_method v pat = Inl TypeError"

text \<open>
  \<^verbatim>\<open>/\.gif$/.test(v)\<close>, \<^verbatim>\<open>/\.(gif|xbs)$/.test(v)\<close> and \<^verbatim>\<open>/^(rtsp|rtmp):\/\//.test(v)\<close>.
  \<^verbatim>\<open>test\<close> converts its argument to a string; none of the three has a flag, so the
  match is case-sensitive and \<^verbatim>\<open>$\<close> is the end of the input.
\<close>

definition test_gif :: "jsval \<Rightarrow> bool" where
  "test_gif v = suffix ''.gif'' (ToString v)"

definition test_gif_xbs :: "jsval \<Rightarrow> bool" where
  "test_gif_xbs v = (suffix ''.gif'' (ToString v) \<or> suffix ''.xbs'' (ToString v))"

definition test_rtsp_rtmp :: "jsval \<Rightarrow> bool" where
  "test_rtsp_rtmp v = (prefix ''rtsp://'' (ToString v) \<or> prefix ''rtmp://'' (ToString v))"

subsection \<open>Conditions that may throw\<close>

text \<open>
  A condition is an error or a boolean.  \<open>andE\<close> is \<^verbatim>\<open>&&\<close>: the right operand counts
  only when the left one is true, so an exception on the right is not raised after a
  false left operand.  \<open>ifE\<close> is one link of an \<^verbatim>\<open>if ... else if\<close> chain.
\<close>

definition andE :: "js_error + bool \<Rightarrow> js_error + bool \<Rightarrow> js_error + bool" where
  "andE a b = (case a of Inl e \<Rightarrow> Inl e | Inr x \<Rightarrow> if x then b else Inr False)"

definition eqE :: "js_error + int \<Rightarrow> int \<Rightarrow> js_error + bool" where
  "eqE a k = (case a of Inl e \<Rightarrow> Inl e | Inr x \<Rightarrow> Inr (x = k))"

definition neqE :: "js_error + int \<Rightarrow> int \<Rightarrow> js_error + bool" where
  "neqE a k = (case a of Inl e \<Rightarrow> Inl e | Inr x \<Rightarrow> Inr (x \<noteq> k))"

definition ifE :: "js_error + bool \<Rightarrow> js_error + 'a \<Rightarrow> js_error + 'a \<Rightarrow> js_error + 'a" where
  "ifE c t e = (case c of Inl err \<Rightarrow> Inl err | Inr x \<Rightarrow> if x then t else e)"

section \<open>Items and sources\<close>

text \<open>\<^verbatim>\<open>enum ItemTypes\<close> of \<^verbatim>\<open>item.ts\<close>; TypeScript numbers the members from 0.\<close>

datatype ItemTypes = UNDEFINED | FILE | LIVE | TEXT | BITMAP | SCREEN | FLASHFILE | GAMESOURCE | HTML

fun ItemTypes_num :: "ItemTypes \<Rightarrow> jsnum" where
  "ItemTypes_num UNDEFINED = JInt 0"
| "ItemTypes_num FILE = JInt 1"
| "ItemTypes_num LIVE = JInt 2"
| "ItemTypes_num TEXT = JInt 3"
| "ItemTypes_num BITMAP = JInt 4"
| "ItemTypes_num SCREEN = JInt 5"
| "ItemTypes_num FLASHFILE = JInt 6"
| "ItemTypes_num GAMESOURCE = JInt 7"
| "ItemTypes_num HTML = JInt 8"

text \<open>
  The constructor of \<^verbatim>\<open>Source\<close> (\<^verbatim>\<open>source.ts\<close>): the object it builds from a property
  bag, field by field in the order of the assignments.  \<^verbatim>\<open>Item\<close> calls it and then sets
  \<^verbatim>\<open>_isItemCall\<close>.
\<close>

definition Source_new :: "(string \<Rightarrow> jsnum) \<Rightarrow> jsobj \<Rightarrow> jsobj" where
  "Source_new str2num props =
     [(''_name'', obj_get props ''name''),
      (''_cname'', obj_get props ''cname''),
      (''_id'', obj_get props ''id''),
      (''_srcId'', obj_get props ''srcid''),
      (''_sceneId'', obj_get props ''sceneId''),
      (''_value'', obj_get props ''value''),
      (''_keepLoaded'', obj_get props ''keeploaded''),
      (''_type'', JNum (Number str2num (obj_get props ''type''))),
      (''_xmlparams'', JObj props),
      (''_isItemCall'', JBool False)]"

definition Item_new :: "(string \<Rightarrow> jsnum) \<Rightarrow> jsobj \<Rightarrow> jsobj" where
  "Item_new str2num props = obj_set (Source_new str2num props) ''_isItemCall'' (JBool True)"

section \<open>Classification (\<^verbatim>\<open>typePromise\<close> in \<^verbatim>\<open>Item.getSource\<close>)\<close>

text \<open>The object \<^verbatim>\<open>typePromise\<close> resolves with: the class it instantiates and the
  property bag it passes to the constructor.\<close>

datatype concrete_source =
    GameSource jsval
  | VideoPlaylistSource jsval
  | HtmlSource jsval
  | ScreenSource jsval
  | ImageSource jsval
  | MediaSource jsval
  | CameraSource jsval
  | AudioSource jsval
  | FlashSource jsval
  | Source jsval

definition audio_guid :: string where
  "audio_guid = ''{33D9A762-90C8-11D0-BD43-00A0C911CE86}''"

text \<open>
  The chain of \<^verbatim>\<open>typePromise\<close>, condition by condition.  \<open>Inl\<close> is an exception thrown
  while a condition is evaluated (the promise of this source is then rejected).
  The first six rules test the local \<^verbatim>\<open>type = Number(source['_type'])\<close>, the last
  three test \<^verbatim>\<open>Number(source['type'])\<close>.
\<close>

definition typePromise :: "(string \<Rightarrow> jsnum) \<Rightarrow> jsobj \<Rightarrow> js_error + concrete_source" where
  "typePromise str2num source =
    (let params = obj_get source ''_xmlparams'';
         type = Number str2num (obj_get source ''_type'')
     in
     ifE (Inr (type = ItemTypes_num GAMESOURCE))
       (Inr (GameSource params))
    (ifE (andE (Inr (type = ItemTypes_num HTML \<or> type = ItemTypes_num FILE))
         (andE (eqE (indexOf_method (obj_get source ''_name'') ''Video Playlist'') 0)
               (Inr (obj_get source ''FilePlaylist'' \<noteq> JStr ''''))))
       (Inr (VideoPlaylistSource params))
    (ifE (Inr (type = ItemTypes_num HTML))
       (Inr (HtmlSource params))
    (ifE (Inr (type = ItemTypes_num SCREEN))
       (Inr (ScreenSource params))
    (ifE (Inr (type = ItemTypes_num BITMAP \<or>
               type = ItemTypes_num FILE \<and> test_gif (obj_get source ''item'')))
       (Inr (ImageSource params))
    (ifE (Inr (type = ItemTypes_num FILE \<and>
               test_gif_xbs (obj_get source ''item'') = False \<and>
               test_rtsp_rtmp (obj_get source ''item'') = False))
       (Inr (MediaSource params))
    (ifE (andE (Inr (Number str2num (obj_get source ''type'') = ItemTypes_num LIVE))
               (eqE (indexOf_method (obj_get source ''item'') audio_guid) (- 1)))
       (Inr (CameraSource params))
    (ifE (andE (Inr (Number str2num (obj_get source ''type'') = ItemTypes_num LIVE))
               (neqE (indexOf_method (obj_get source ''item'') audio_guid) (- 1)))
       (Inr (AudioSource params))
    (ifE (Inr (Number str2num (obj_get source ''type'') = ItemTypes_num FLASHFILE))
       (Inr (FlashSource params))
       (Inr (Source params)))))))))))"

section \<open>Enumeration order of a plain object\<close>

text \<open>
  \<^verbatim>\<open>for (var j in obj)\<close> visits the own properties of a plain object in the order of
  the language's \<^verbatim>\<open>OrdinaryOwnPropertyKeys\<close>: first the keys that are array indices
  (the canonical decimal numerals below \<open>2\<^sup>3\<^sup>2 - 1\<close>) in ascending numeric order, then every
  other string key in creation order.
\<close>

definition is_digit :: "char \<Rightarrow> bool" where
  "is_digit c = (48 \<le> (of_char c :: nat) \<and> (of_char c :: nat) \<le> 57)"

definition dec_value :: "string \<Rightarrow> nat" where
  "dec_value s = foldl (\<lambda>n c. 10 * n + (of_char c - 48)) 0 s"

definition is_array_index :: "string \<Rightarrow> bool" where
  "is_array_index s =
     (case s of
        [] \<Rightarrow> False
      | c # cs \<Rightarrow> list_all is_digit s \<and> (c \<noteq> CHR ''0'' \<or> cs = []) \<and> dec_value s < 4294967295)"

definition for_in :: "(string \<times> 'v) list \<Rightarrow> (string \<times> 'v) list" where
  "for_in ob =
     sort_key (\<lambda>p. dec_value (fst p)) (filter (\<lambda>p. is_array_index (fst p)) ob) @
     filter (\<lambda>p. \<not> is_array_index (fst p)) ob"

section \<open>The host\<close>

text \<open>
  Modelled from the spec: the collaborators that \<^verbatim>\<open>source.ts\<close> and \<^verbatim>\<open>item.ts\<close> import and
  that are not part of the sources at hand.  They are the parameters of every operation
  below.
  \<^item> \<^verbatim>\<open>Environment\<close> (the spec's HostContext) answers three questions;
    the code asks them one by one, so they are three booleans.
  \<^item> \<^verbatim>\<open>versionCompare(getVersion()).is.lessThan(v)\<close> and \<^verbatim>\<open>greaterThan(v)\<close> (the spec's
    VersionOracle) are ordered comparisons against two thresholds: a version is its rank
    in that order.
  \<^item> \<^verbatim>\<open>iItem.getBaseId()\<close> is the host-supplied base id, \<^verbatim>\<open>iItem.get(key, slot)\<close> resolves
    with a string (the spec's PropertyChannel).
  \<^item> \<^verbatim>\<open>Scene.searchItemsById(id)\<close> resolves with an item or fails with NotFound
    (\<open>None\<close>).
\<close>

record host =
  isExtension :: bool
  isSourcePlugin :: bool
  isSourceConfig :: bool
  getVersion :: nat
  minVersion :: nat
  globalsrcMinVersion :: nat
  getBaseId :: string
  iItem_get :: "string \<Rightarrow> jsval \<Rightarrow> string"
  searchItemsById :: "jsval \<Rightarrow> jsobj option"

text \<open>Modelled from the spec: a \<^verbatim>\<open>Scene\<close> object answers \<^verbatim>\<open>getSceneNumber()\<close> with a number.\<close>

datatype Scene = Scene (getSceneNumber: int)

text \<open>
  What an operation does is the list of the calls it issues to the host and to the scene
  collaborator, in the order it issues them, and the state its promise ends in. A promise
  that no code path resolves or rejects stays \<open>Pending\<close>.  Host calls themselves are
  taken to succeed.
\<close>

datatype hostcall =
    Get string jsval
  | Set string string jsval
  | CallFunc string string
  | SearchItemsById jsval
  | GetSceneNumber Scene

datatype 'a promise = Resolved 'a | Rejected js_error | Pending

section \<open>Enumeration\<close>

text \<open>\<^verbatim>\<open>s.split(',')\<close>: the pieces between the separators; the empty string gives one empty piece.\<close>

fun split :: "char \<Rightarrow> string \<Rightarrow> string list" where
  "split sep [] = [[]]"
| "split sep (c # cs) =
     (if c = sep then [] # split sep cs
      else (case split sep cs of [] \<Rightarrow> [[c]] | w # ws \<Rightarrow> (c # w) # ws))"

text \<open>
  The list branch shared by \<^verbatim>\<open>Source.getItemList\<close> and \<^verbatim>\<open>Item.getItemList\<close>: one promise
  per id, which resolves with the item found or, through its \<^verbatim>\<open>catch\<close>, with \<^verbatim>\<open>null\<close>
  (\<open>None\<close>); \<^verbatim>\<open>Promise.all\<close> keeps the order of the ids; the \<^verbatim>\<open>null\<close>s are filtered out.
\<close>

definition resolve_itemlist :: "host \<Rightarrow> jsval \<Rightarrow> hostcall list \<times> jsobj list promise" where
  "resolve_itemlist h slot =
     (let itemlist = iItem_get h ''itemlist'' slot;
          itemsArray = split CHR '','' itemlist;
          results = map (\<lambda>itemId. searchItemsById h (JStr itemId)) itemsArray
      in (Get ''itemlist'' slot # map (\<lambda>itemId. SearchItemsById (JStr itemId)) itemsArray,
          Resolved [item. Some item \<leftarrow> results]))"

text \<open>The legacy branch: one search, whose failure nothing catches.\<close>

definition resolve_single :: "host \<Rightarrow> jsval \<Rightarrow> hostcall list \<times> jsobj list promise" where
  "resolve_single h itemId =
     ([SearchItemsById itemId],
      case searchItemsById h itemId of None \<Rightarrow> Pending | Some item \<Rightarrow> Resolved [item])"

definition extension_message :: string where
  "extension_message = ''Extensions do not have sources associated with them.''"

text \<open>\<^verbatim>\<open>static getItemList()\<close> of \<^verbatim>\<open>Source\<close>; \<^verbatim>\<open>iItem.get('itemlist')\<close> passes no slot.\<close>

definition Source_getItemList :: "host \<Rightarrow> hostcall list \<times> jsobj list promise" where
  "Source_getItemList h =
     (if isExtension h then ([], Rejected (Error extension_message))
      else if getVersion h < minVersion h then resolve_single h (JStr (getBaseId h))
      else if isSourcePlugin h \<or> isSourceConfig h then resolve_itemlist h JUndefined
      else ([], Pending))"

text \<open>\<^verbatim>\<open>getItemList()\<close> of an \<^verbatim>\<open>Item\<close> instance: no context check, the item's own id.\<close>

definition Item_getItemList :: "host \<Rightarrow> jsobj \<Rightarrow> hostcall list \<times> jsobj list promise" where
  "Item_getItemList h this =
     (if getVersion h < minVersion h then resolve_single h (obj_get this ''_id'')
      else resolve_itemlist h (obj_get this ''_id''))"

text \<open>\<^verbatim>\<open>static getCurrentSource()\<close> of \<^verbatim>\<open>Source\<close>.\<close>

definition Source_getCurrentSource :: "host \<Rightarrow> hostcall list \<times> jsobj promise" where
  "Source_getCurrentSource h =
     (if isExtension h then ([], Rejected (Error extension_message))
      else if (isSourcePlugin h \<or> isSourceConfig h) \<and> getVersion h > minVersion h then
        (case Source_getItemList h of
           (calls, Resolved items) \<Rightarrow>
             (calls, case items of [] \<Rightarrow> Rejected (Error ''Cannot get item list'')
                     | item # rest \<Rightarrow> Resolved item)
         | (calls, other) \<Rightarrow> (calls, Pending))
      else if isSourcePlugin h \<or> isSourceConfig h then
        ([SearchItemsById (JStr (getBaseId h))],
         case searchItemsById h (JStr (getBaseId h)) of None \<Rightarrow> Pending | Some item \<Rightarrow> Resolved item)
      else ([], Pending))"

section \<open>Deduplication and \<^verbatim>\<open>Item.getSource\<close>\<close>

text \<open>
  The first loop of \<^verbatim>\<open>getSource\<close>: for each item, for each of its keys, the key
  \<^verbatim>\<open>_srcId\<close> stores the item in \<^verbatim>\<open>uniqueObj\<close> under the value of that property, which
  the property access converts to a string (a key that an item inherits from a
  prototype is never \<^verbatim>\<open>_srcId\<close>).  The keys are ordinary property names: the
  two names with which an entry would act on \<^verbatim>\<open>uniqueObj\<close> itself, \<^verbatim>\<open>__proto__\<close> (the
  assignment replaces the prototype) and \<^verbatim>\<open>hasOwnProperty\<close> (the entry hides the method
  that the second loop calls), are taken not to occur as source ids.
\<close>

definition store_item :: "(string \<times> jsobj) list \<Rightarrow> jsobj \<Rightarrow> (string \<times> jsobj) list" where
  "store_item uniqueObj item =
     foldl (\<lambda>uo key. if key = ''_srcId'' then AList.update (ToString (obj_get item key)) item uo else uo)
       uniqueObj (map fst (for_in item))"

definition uniqueObj_of :: "jsobj list \<Rightarrow> (string \<times> jsobj) list" where
  "uniqueObj_of items = foldl store_item [] items"

text \<open>The second loop: \<^verbatim>\<open>uniqueSource\<close> is the values of \<^verbatim>\<open>uniqueObj\<close> in enumeration order.\<close>

definition uniqueSource_of :: "jsobj list \<Rightarrow> jsobj list" where
  "uniqueSource_of items = map snd (for_in (uniqueObj_of items))"

text \<open>\<^verbatim>\<open>Promise.all\<close> over promises that are settled already: all the values, or the first error.\<close>

fun Promise_all :: "(js_error + 'a) list \<Rightarrow> js_error + 'a list" where
  "Promise_all [] = Inr []"
| "Promise_all (Inl e # ps) = Inl e"
| "Promise_all (Inr x # ps) = (case Promise_all ps of Inl e \<Rightarrow> Inl e | Inr xs \<Rightarrow> Inr (x # xs))"

text \<open>
  \<^verbatim>\<open>static getSource()\<close> of \<^verbatim>\<open>Item\<close>.  \<^verbatim>\<open>Item.getItemList()\<close> there is the static method
  inherited from \<^verbatim>\<open>Source\<close>.  Its \<^verbatim>\<open>then\<close> has no rejection handler, and neither has the
  one on \<^verbatim>\<open>Promise.all\<close>: a rejection on either leaves the promise pending.  The
  \<^verbatim>\<open>console.log\<close> of each source is not a call to the host.
\<close>

definition Item_getSource ::
  "(string \<Rightarrow> jsnum) \<Rightarrow> host \<Rightarrow> hostcall list \<times> concrete_source list promise" where
  "Item_getSource str2num h =
     (if isExtension h then ([], Rejected (Error ''Does not work here!''))
      else if isSourcePlugin h \<or> isSourceConfig h then
        (case Source_getItemList h of
           (calls, Resolved items) \<Rightarrow>
             (calls, case Promise_all (map (typePromise str2num) (uniqueSource_of items)) of
                       Inl e \<Rightarrow> Pending
                     | Inr results \<Rightarrow> Resolved results)
         | (calls, other) \<Rightarrow> (calls, Pending))
      else ([], Pending))"

section \<open>\<^verbatim>\<open>Item.duplicate\<close>\<close>

text \<open>
  \<^verbatim>\<open>toXML()\<close> copies the own properties of \<^verbatim>\<open>_xmlparams\<close> into a fresh object and adds
  \<^verbatim>\<open>tag\<close> and \<^verbatim>\<open>selfclosing\<close>.  \<^verbatim>\<open>XML.parseJSON(item).toString()\<close> is not part of the
  sources at hand: it is the parameter \<open>xml\<close> of \<open>duplicate\<close>.
\<close>

definition toXML :: "jsobj \<Rightarrow> jsobj" where
  "toXML this =
     (let item0 = (case obj_get this ''_xmlparams'' of
                     JObj xmlparams \<Rightarrow> foldl (\<lambda>item (prop, v). obj_set item prop v) [] (for_in xmlparams)
                   | other \<Rightarrow> []);
          item1 = obj_set item0 ''tag'' (JStr ''item'');
          item2 = obj_set item1 ''selfclosing'' (JBool True)
      in item2)"

text \<open>
  The argument \<^verbatim>\<open>options\<close>: absent (\<open>None\<close>) or an object whose \<^verbatim>\<open>linked\<close> is
  \<^verbatim>\<open>undefined\<close> (\<open>None\<close>) or a boolean and whose \<^verbatim>\<open>scene\<close> is \<^verbatim>\<open>undefined\<close>, an instance
  of \<^verbatim>\<open>Scene\<close>, or some other value.
\<close>

datatype scene_option = scene_undefined | scene_instance Scene | scene_other

record dup_options =
  linked :: "bool option"
  scene :: scene_option

definition link_flag :: "bool option \<Rightarrow> string" where
  "link_flag l = (if l = Some True then ''1'' else ''0'')"

definition duplicate ::
  "(jsobj \<Rightarrow> string) \<Rightarrow> host \<Rightarrow> jsobj \<Rightarrow> dup_options option \<Rightarrow> hostcall list \<times> jsobj promise" where
  "duplicate xml h this options =
     (if getVersion h < globalsrcMinVersion h then
        ([CallFunc ''additem'' (xml (toXML this))], Resolved this)
      else
        (case options of
           Some opts \<Rightarrow>
             (let keep = (if linked opts = Some True
                          then [Set ''prop:keeploaded'' ''1'' (obj_get this ''_id'')] else []);
                  rest =
                    (if scene opts \<noteq> scene_undefined \<and> linked opts \<noteq> None then
                       (case scene opts of
                          scene_instance s \<Rightarrow>
                            ([GetSceneNumber s,
                              CallFunc (''link:'' @ link_flag (linked opts) @ ''|s:'' @
                                        show_int (getSceneNumber s) @ ''|additem'') (xml (toXML this))],
                             Resolved this)
                        | other \<Rightarrow> ([], Rejected (Error ''Invalid parameters'')))
                     else if linked opts = None then
                       (case scene opts of
                          scene_instance s \<Rightarrow>
                            ([GetSceneNumber s,
                              CallFunc (''link:0|s:'' @ show_int (getSceneNumber s) @ ''|additem'')
                                       (xml (toXML this))],
                             Resolved this)
                        | other \<Rightarrow> ([], Rejected (Error ''Invalid parameters'')))
                     else if scene opts = scene_undefined then
                       ([CallFunc (''link:'' @ link_flag (linked opts) @ ''|s:'' @
                                   ToString (obj_get this ''_sceneId'') @ ''|additem'') (xml (toXML this))],
                        Resolved this)
                     else ([], Pending))
              in (keep @ fst rest, snd rest))
         | None \<Rightarrow> ([CallFunc ''link:0|additem'' (xml (toXML this))], Resolved this)))"

text \<open>\<^verbatim>\<open>unlink()\<close>: one property write, then the item itself.\<close>

definition unlink :: "jsobj \<Rightarrow> hostcall list \<times> jsobj promise" where
  "unlink this = ([Set ''prop:globalsrc'' ''0'' (obj_get this ''_id'')], Resolved this)"

section \<open>Notions used in the statements\<close>

text \<open>The property key under which the first loop of \<^verbatim>\<open>getSource\<close> stores an item.\<close>

definition srcId_key :: "jsobj \<Rightarrow> string" where
  "srcId_key item = ToString (obj_get item ''_srcId'')"

text \<open>The elements of a list in the order of their first occurrence.\<close>

fun first_occurrences :: "'a list \<Rightarrow> 'a list" where
  "first_occurrences [] = []"
| "first_occurrences (x # xs) = x # filter (\<lambda>y. y \<noteq> x) (first_occurrences xs)"

text \<open>
  An instance of the numeric parse for concrete evaluations: on a nonempty string of
  decimal digits it is the number they denote, as in the engine; it is applied to no
  other string below.
\<close>

definition decimal_str2num :: "string \<Rightarrow> jsnum" where
  "decimal_str2num s = (if s \<noteq> [] \<and> list_all is_digit s then JInt (int (dec_value s)) else JNaN)"

subsection \<open>Sample data\<close>

definition gif_upper_source :: jsobj where
  "gif_upper_source =
     [(''_name'', JStr ''clip''), (''_type'', JNum (JInt 1)), (''item'', JStr ''clip.GIF'')]"

definition gif_lower_source :: jsobj where
  "gif_lower_source =
     [(''_name'', JStr ''clip''), (''_type'', JNum (JInt 1)), (''item'', JStr ''clip.gif'')]"

definition gif_bak_source :: jsobj where
  "gif_bak_source =
     [(''_name'', JStr ''clip''), (''_type'', JNum (JInt 1)), (''item'', JStr ''clip.gif.bak'')]"

definition playlist_source :: jsobj where
  "playlist_source =
     [(''_name'', JStr ''Video Playlist - My Show''), (''_type'', JNum (JInt 8)),
      (''FilePlaylist'', JStr ''a.xbpl'')]"

definition playlist_empty_source :: jsobj where
  "playlist_empty_source =
     [(''_name'', JStr ''Video Playlist - My Show''), (''_type'', JNum (JInt 8)),
      (''FilePlaylist'', JStr [])]"

definition playlist_absent_source :: jsobj where
  "playlist_absent_source =
     [(''_name'', JStr ''Video Playlist - My Show''), (''_type'', JNum (JInt 8))]"

definition mic_props :: jsobj where
  "mic_props =
     [(''id'', JStr ''{A1}''), (''srcid'', JStr ''{S1}''), (''type'', JStr ''2''),
      (''name'', JStr ''Microphone''),
      (''item'', JStr ''@DEVICE:SW:{33D9A762-90C8-11D0-BD43-00A0C911CE86}:Microphone'')]"

text \<open>
  A scene tree with three items, two of them linked to one source; the id list of the
  host names a fourth id that is stale.
\<close>

definition camera_props :: "string \<Rightarrow> string \<Rightarrow> jsobj" where
  "camera_props itemId srcId =
     [(''id'', JStr itemId), (''srcid'', JStr srcId), (''type'', JStr ''2''),
      (''name'', JStr ''Camera''), (''item'', JStr ''@DEVICE:PNP:camera'')]"

definition linked_item :: "string \<Rightarrow> string \<Rightarrow> jsobj" where
  "linked_item itemId srcId = Item_new decimal_str2num (camera_props itemId srcId)"

definition sample_scene :: "jsval \<Rightarrow> jsobj option" where
  "sample_scene itemId =
     (if itemId = JStr ''{A1}'' then Some (linked_item ''{A1}'' ''{S1}'')
      else if itemId = JStr ''{A3}'' then Some (linked_item ''{A3}'' ''{S1}'')
      else if itemId = JStr ''{A4}'' then Some (linked_item ''{A4}'' ''{S2}'')
      else None)"

definition sample_get :: "string \<Rightarrow> jsval \<Rightarrow> string" where
  "sample_get key slot = (if key = ''itemlist'' then ''{A1},{A2},{A3},{A4}'' else [])"

definition plugin_host :: host where
  "plugin_host =
     \<lparr>isExtension = False, isSourcePlugin = True, isSourceConfig = False,
      getVersion = 3, minVersion = 2, globalsrcMinVersion = 3, getBaseId = ''{A1}'',
      iItem_get = sample_get, searchItemsById = sample_scene\<rparr>"

definition legacy_host :: host where
  "legacy_host = plugin_host\<lparr>getVersion := 1\<rparr>"

definition extension_host :: host where
  "extension_host = plugin_host\<lparr>isExtension := True, isSourcePlugin := False\<rparr>"

definition legacy_extension_host :: host where
  "legacy_extension_host = extension_host\<lparr>getVersion := 1\<rparr>"

text \<open>A stand-in for the XML serializer in concrete evaluations.\<close>

definition sample_xml :: "jsobj \<Rightarrow> string" where
  "sample_xml item = concat (map (\<lambda>(k, v). k @ ''='' @ ToString v @ '' '') item)"

text \<open>The keys under which the items of a list are stored, in the order of the list.\<close>

definition source_keys :: "jsobj list \<Rightarrow> string list" where
  "source_keys items = map srcId_key (filter (\<lambda>item. obj_has item ''_srcId'') items)"

text \<open>Eight items on three sources (five, two and one), and two items whose source
  ids are numerals.\<close>

definition linked_items_5_2_1 :: "jsobj list" where
  "linked_items_5_2_1 =
     [linked_item ''{A1}'' ''{S1}'', linked_item ''{B1}'' ''{S2}'', linked_item ''{A2}'' ''{S1}'',
      linked_item ''{A3}'' ''{S1}'', linked_item ''{C1}'' ''{S3}'', linked_item ''{A4}'' ''{S1}'',
      linked_item ''{B2}'' ''{S2}'', linked_item ''{A5}'' ''{S1}'']"

definition numeric_id_items :: "jsobj list" where
  "numeric_id_items = [linked_item ''{A1}'' ''2'', linked_item ''{A2}'' ''1'']"

text \<open>Two property bags as the host describes items: a FILE item whose path ends in
  \<^verbatim>\<open>.GIF\<close>, and an HTML item named as a video playlist that has no \<^verbatim>\<open>FilePlaylist\<close>.\<close>

definition gif_upper_props :: jsobj where
  "gif_upper_props =
     [(''id'', JStr ''{F1}''), (''srcid'', JStr ''{SF}''), (''type'', JStr ''1''),
      (''name'', JStr ''clip''), (''item'', JStr ''clip.GIF'')]"

definition playlist_absent_props :: jsobj where
  "playlist_absent_props =
     [(''id'', JStr ''{H1}''), (''srcid'', JStr ''{SH}''), (''type'', JStr ''8''),
      (''name'', JStr ''Video Playlist - My Show''), (''item'', JStr ''html:plugin'')]"

section \<open>Properties of the classifier\<close>

lemma indexOf_from_range: "indexOf_from s pat i = - 1 \<or> int i \<le> indexOf_from s pat i"
  by (induction s arbitrary: i) (auto, force)

lemma indexOf_from_start: "indexOf_from s pat i = int i \<longleftrightarrow> prefix pat s"
proof (cases s)
  case Nil
  then show ?thesis by auto
next
  case (Cons c cs)
  have "indexOf_from cs pat (Suc i) \<noteq> int i"
    using indexOf_from_range [of cs pat "Suc i"] by auto
  with Cons show ?thesis by auto
qed

lemma indexOf_zero_iff: "indexOf s pat = 0 \<longleftrightarrow> prefix pat s"
  using indexOf_from_start [of s pat 0] by (simp add: indexOf_def)

lemmas cond_defs = ifE_def andE_def eqE_def neqE_def

lemmas regex_defs = test_gif_def test_gif_xbs_def test_rtsp_rtmp_def

text \<open>
  What the constructor leaves on an item: the fields it assigns, and nothing under the
  keys \<^verbatim>\<open>type\<close>, \<^verbatim>\<open>item\<close> and \<^verbatim>\<open>FilePlaylist\<close>, which stay inside \<^verbatim>\<open>_xmlparams\<close>.
\<close>

lemma Item_new_fields:
  "obj_get (Item_new s2n props) ''_type'' = JNum (Number s2n (obj_get props ''type''))"
  "obj_get (Item_new s2n props) ''_name'' = obj_get props ''name''"
  "obj_get (Item_new s2n props) ''_srcId'' = obj_get props ''srcid''"
  "obj_get (Item_new s2n props) ''_id'' = obj_get props ''id''"
  "obj_get (Item_new s2n props) ''_xmlparams'' = JObj props"
  "obj_get (Item_new s2n props) ''type'' = JUndefined"
  "obj_get (Item_new s2n props) ''item'' = JUndefined"
  "obj_get (Item_new s2n props) ''FilePlaylist'' = JUndefined"
  by (simp_all add: Item_new_def Source_new_def obj_set_def obj_get_def)

lemma Item_new_has_srcId: "obj_has (Item_new s2n props) ''_srcId''"
  by (simp add: Item_new_def Source_new_def obj_set_def obj_has_def)

text \<open>
  On an item that the constructor built, the rules for LIVE and FLASHFILE never fire:
  they read \<^verbatim>\<open>source['type']\<close>, which is \<^verbatim>\<open>undefined\<close> there.
\<close>

lemma typePromise_Item_new_LIVE:
  assumes "Number s2n (obj_get props ''type'') = ItemTypes_num LIVE"
  shows "typePromise s2n (Item_new s2n props) = Inr (Source (JObj props))"
  using assms by (simp add: typePromise_def Item_new_fields cond_defs)

text \<open>A FILE item that the constructor built is never an image: the regular
  expressions test the string \<^verbatim>\<open>"undefined"\<close>.\<close>

lemma typePromise_Item_new_FILE:
  assumes "Number s2n (obj_get props ''type'') = ItemTypes_num FILE"
  shows "typePromise s2n (Item_new s2n props) \<noteq> Inr (ImageSource (JObj props))"
  using assms
  by (auto simp: typePromise_def Item_new_fields cond_defs regex_defs suffix_def Let_def
           split: sum.splits)




text \<open>
  C3 at a failing input: the item that the constructor builds for a microphone (type
  LIVE, the audio GUID in its device string) is classified as a plain \<^verbatim>\<open>Source\<close>, not as
  an AudioSource.
\<close>

theorem C3_live_item_is_plain_source:
  "typePromise decimal_str2num (Item_new decimal_str2num mic_props) = Inr (Source (JObj mic_props))"
  by (simp add: typePromise_def obj_get_def cond_defs Item_new_def Source_new_def obj_set_def
        mic_props_def decimal_str2num_def is_digit_def dec_value_def)




section \<open>Properties of the enumeration\<close>

lemma somes_map_filter:
  "concat (map (case_option [] (\<lambda>item. [item]) \<circ> f) xs) = List.map_filter f xs"
  by (induction xs) (auto simp: List.map_filter_simps split: option.splits)

lemma linked_item_fields:
  "obj_get (linked_item itemId srcId) ''_id'' = JStr itemId"
  "obj_get (linked_item itemId srcId) ''_srcId'' = JStr srcId"
  unfolding linked_item_def Item_new_fields by (simp_all add: obj_get_def camera_props_def)

lemmas enum_defs =
  Source_getItemList_def Item_getItemList_def resolve_single_def resolve_itemlist_def

lemmas host_defs =
  plugin_host_def legacy_host_def extension_host_def legacy_extension_host_def
  sample_scene_def sample_get_def

text \<open>
  C5, as the code has it.  On a host version below the minimum: \<^verbatim>\<open>Item.getItemList\<close>, in
  any context, and \<^verbatim>\<open>Source.getItemList\<close>, outside the extension context, issue exactly
  one call, the scene search for the item's own id and for the host's base id, and
  resolve with the one-element sequence of the item found; when the search fails the
  promise stays pending.  Neither reads the \<^verbatim>\<open>itemlist\<close> key, whatever the context and
  the slot.
\<close>

theorem C5_legacy_single_search:
  assumes "getVersion h < minVersion h"
  shows "(\<not> isExtension h \<longrightarrow>
            Source_getItemList h =
              ([SearchItemsById (JStr (getBaseId h))],
               case searchItemsById h (JStr (getBaseId h)) of
                 None \<Rightarrow> Pending | Some item \<Rightarrow> Resolved [item])) \<and>
         Item_getItemList h this =
           ([SearchItemsById (obj_get this ''_id'')],
            case searchItemsById h (obj_get this ''_id'') of
              None \<Rightarrow> Pending | Some item \<Rightarrow> Resolved [item]) \<and>
         Get ''itemlist'' slot \<notin> set (fst (Source_getItemList h)) \<and>
         Get ''itemlist'' slot \<notin> set (fst (Item_getItemList h this))"
  using assms by (simp add: enum_defs)

theorem C5_legacy_single_search_witness:
  "Source_getItemList legacy_host =
     ([SearchItemsById (JStr ''{A1}'')], Resolved [linked_item ''{A1}'' ''{S1}'']) \<and>
   Item_getItemList legacy_host (linked_item ''{A3}'' ''{S1}'') =
     ([SearchItemsById (JStr ''{A3}'')], Resolved [linked_item ''{A3}'' ''{S1}''])"
proof -
  have v: "getVersion legacy_host < minVersion legacy_host" "\<not> isExtension legacy_host"
    by (simp_all add: host_defs)
  have s: "searchItemsById legacy_host (JStr (getBaseId legacy_host)) =
             Some (linked_item ''{A1}'' ''{S1}'')"
    "getBaseId legacy_host = ''{A1}''"
    "obj_get (linked_item ''{A3}'' ''{S1}'') ''_id'' = JStr ''{A3}''"
    "searchItemsById legacy_host (JStr ''{A3}'') = Some (linked_item ''{A3}'' ''{S1}'')"
    by (simp_all add: host_defs linked_item_fields)
  show ?thesis
    using C5_legacy_single_search [OF v(1), of "linked_item ''{A3}'' ''{S1}''"] v(2) s by simp
qed

text \<open>
  C5 as stated fails: in the extension context \<^verbatim>\<open>Source.getItemList\<close> rejects on a
  host version below the minimum too; the context is tested first.
\<close>

theorem C5_legacy_extension_rejects:
  "getVersion legacy_extension_host < minVersion legacy_extension_host \<and>
   Source_getItemList legacy_extension_host = ([], Rejected (Error extension_message))"
  by (simp add: host_defs enum_defs)

text \<open>
  C6.  On a host version that is not below the minimum, \<^verbatim>\<open>Source.getItemList\<close> (in the
  source plugin or source configuration context) and \<^verbatim>\<open>Item.getItemList\<close> resolve, and
  the sequence they resolve with holds exactly the items of the ids of the
  comma-separated list whose search succeeded, in the order of the list: an id whose
  search fails contributes nothing and fails nothing.
\<close>

theorem C6_failed_ids_are_dropped:
  assumes "\<not> getVersion h < minVersion h"
  shows "(\<not> isExtension h \<and> (isSourcePlugin h \<or> isSourceConfig h) \<longrightarrow>
            snd (Source_getItemList h) =
              Resolved (List.map_filter (\<lambda>itemId. searchItemsById h (JStr itemId))
                          (split CHR '','' (iItem_get h ''itemlist'' JUndefined)))) \<and>
         snd (Item_getItemList h this) =
           Resolved (List.map_filter (\<lambda>itemId. searchItemsById h (JStr itemId))
                       (split CHR '','' (iItem_get h ''itemlist'' (obj_get this ''_id''))))"
  using assms by (simp add: enum_defs somes_map_filter Let_def)

theorem C6_failed_ids_are_dropped_witness:
  "snd (Source_getItemList plugin_host) =
     Resolved [linked_item ''{A1}'' ''{S1}'', linked_item ''{A3}'' ''{S1}'',
               linked_item ''{A4}'' ''{S2}''] \<and>
   snd (Item_getItemList plugin_host (linked_item ''{A3}'' ''{S1}'')) =
     Resolved [linked_item ''{A1}'' ''{S1}'', linked_item ''{A3}'' ''{S1}'',
               linked_item ''{A4}'' ''{S2}'']"
proof -
  have v: "\<not> getVersion plugin_host < minVersion plugin_host"
    "\<not> isExtension plugin_host \<and> (isSourcePlugin plugin_host \<or> isSourceConfig plugin_host)"
    by (simp_all add: host_defs)
  show ?thesis
    using C6_failed_ids_are_dropped [OF v(1), of "linked_item ''{A3}'' ''{S1}''"] v(2)
    by (simp add: host_defs)
qed

text \<open>
  C7, as the code has it.  In the extension context each of \<^verbatim>\<open>Source.getItemList\<close>,
  \<^verbatim>\<open>Source.getCurrentSource\<close> and \<^verbatim>\<open>Item.getSource\<close> rejects without a call to the host
  or to the scene.  The first two say that extensions do not have sources associated
  with them; \<^verbatim>\<open>Item.getSource\<close> says \<^verbatim>\<open>Does not work here!\<close>.
\<close>

theorem C7_extension_rejects:
  assumes "isExtension h"
  shows "Source_getItemList h = ([], Rejected (Error extension_message)) \<and>
         Source_getCurrentSource h = ([], Rejected (Error extension_message)) \<and>
         Item_getSource s2n h = ([], Rejected (Error ''Does not work here!''))"
  using assms
  by (simp add: Source_getItemList_def Source_getCurrentSource_def Item_getSource_def)

theorem C7_extension_rejects_witness:
  "Source_getItemList extension_host = ([], Rejected (Error extension_message)) \<and>
   Source_getCurrentSource extension_host = ([], Rejected (Error extension_message)) \<and>
   Item_getSource decimal_str2num extension_host = ([], Rejected (Error ''Does not work here!''))"
proof -
  have "isExtension extension_host"
    by (simp add: host_defs)
  then show ?thesis
    by (rule C7_extension_rejects)
qed

text \<open>
  C7 as stated fails: the error of \<^verbatim>\<open>Item.getSource\<close> in the extension context is not
  the one that states that extensions have no sources.
\<close>

theorem C7_getSource_other_message:
  "isExtension extension_host \<and>
   Item_getSource decimal_str2num extension_host = ([], Rejected (Error ''Does not work here!'')) \<and>
   Item_getSource decimal_str2num extension_host \<noteq> ([], Rejected (Error extension_message))"
  by (simp add: host_defs Item_getSource_def extension_message_def)

section \<open>Properties of \<^verbatim>\<open>duplicate\<close>\<close>

text \<open>
  C8, as the code has it.  On a host at or above the global-linked-source threshold,
  \<^verbatim>\<open>duplicate\<close> with a \<^verbatim>\<open>scene\<close> that is present and not a \<^verbatim>\<open>Scene\<close> rejects with
  \<^verbatim>\<open>Invalid parameters\<close> and issues no \<^verbatim>\<open>additem\<close> command; it issues no host call at all
  unless \<^verbatim>\<open>linked\<close> is true, and then exactly the write of \<^verbatim>\<open>prop:keeploaded\<close>, which
  precedes the test of the scene.
\<close>

theorem C8_invalid_scene_rejects:
  assumes "\<not> getVersion h < globalsrcMinVersion h" and "scene opts = scene_other"
  shows "duplicate xml h this (Some opts) =
           (if linked opts = Some True
            then [Set ''prop:keeploaded'' ''1'' (obj_get this ''_id'')] else [],
            Rejected (Error ''Invalid parameters''))"
  using assms by (simp add: duplicate_def Let_def)

theorem C8_invalid_scene_rejects_witness:
  "duplicate sample_xml plugin_host (linked_item ''{A1}'' ''{S1}'')
     (Some \<lparr>linked = Some False, scene = scene_other\<rparr>) =
     ([], Rejected (Error ''Invalid parameters'')) \<and>
   duplicate sample_xml plugin_host (linked_item ''{A1}'' ''{S1}'')
     (Some \<lparr>linked = None, scene = scene_other\<rparr>) =
     ([], Rejected (Error ''Invalid parameters''))"
proof -
  have v: "\<not> getVersion plugin_host < globalsrcMinVersion plugin_host"
    by (simp add: host_defs)
  show ?thesis
    using C8_invalid_scene_rejects [OF v, of "\<lparr>linked = Some False, scene = scene_other\<rparr>"]
      C8_invalid_scene_rejects [OF v, of "\<lparr>linked = None, scene = scene_other\<rparr>"]
    by simp
qed

text \<open>
  C8 as stated fails: with \<^verbatim>\<open>linked: true\<close> and an invalid scene, the write of
  \<^verbatim>\<open>prop:keeploaded\<close> is issued before the rejection.
\<close>

theorem C8_linked_invalid_scene_writes:
  "\<not> getVersion plugin_host < globalsrcMinVersion plugin_host \<and>
   duplicate sample_xml plugin_host (linked_item ''{A1}'' ''{S1}'')
     (Some \<lparr>linked = Some True, scene = scene_other\<rparr>) =
     ([Set ''prop:keeploaded'' ''1'' (JStr ''{A1}'')], Rejected (Error ''Invalid parameters''))"
  by (simp add: host_defs duplicate_def Let_def linked_item_fields)

text \<open>
  C9.  On a host at or above the global-linked-source threshold,
  \<^verbatim>\<open>duplicate({linked: true, scene: S})\<close> with \<open>S\<close> a \<^verbatim>\<open>Scene\<close> issues, in this order, the
  write of \<^verbatim>\<open>'1'\<close> to \<^verbatim>\<open>prop:keeploaded\<close>, the request for the number of the scene, and
  the command \<^verbatim>\<open>link:1|s:<number>|additem\<close> with the XML of the item; nothing else, and
  it resolves with the item.
\<close>

theorem C9_keeploaded_before_additem:
  assumes "\<not> getVersion h < globalsrcMinVersion h"
    and "linked opts = Some True" and "scene opts = scene_instance s"
  shows "duplicate xml h this (Some opts) =
           ([Set ''prop:keeploaded'' ''1'' (obj_get this ''_id''),
             GetSceneNumber s,
             CallFunc (''link:1|s:'' @ show_int (getSceneNumber s) @ ''|additem'')
                      (xml (toXML this))],
            Resolved this)"
  using assms by (simp add: duplicate_def Let_def link_flag_def)

lemma show_int_2: "show_int 2 = ''2''"
  by (simp add: show_int_def show_nat.simps [of 2] digit_char_def)

theorem C9_keeploaded_before_additem_witness:
  "duplicate sample_xml plugin_host (linked_item ''{A1}'' ''{S1}'')
     (Some \<lparr>linked = Some True, scene = scene_instance (Scene 2)\<rparr>) =
     ([Set ''prop:keeploaded'' ''1'' (JStr ''{A1}''),
       GetSceneNumber (Scene 2),
       CallFunc ''link:1|s:2|additem'' (sample_xml (toXML (linked_item ''{A1}'' ''{S1}'')))],
      Resolved (linked_item ''{A1}'' ''{S1}''))"
proof -
  have v: "\<not> getVersion plugin_host < globalsrcMinVersion plugin_host"
    by (simp add: host_defs)
  have i: "obj_get (linked_item ''{A1}'' ''{S1}'') ''_id'' = JStr ''{A1}''"
    by (simp add: linked_item_fields)
  show ?thesis
    using C9_keeploaded_before_additem
      [OF v, of "\<lparr>linked = Some True, scene = scene_instance (Scene 2)\<rparr>" "Scene 2"
         sample_xml "linked_item ''{A1}'' ''{S1}''"]
    by (simp add: i show_int_2)
qed

section \<open>Properties of the deduplication\<close>

lemma not_index_srcId: "\<not> is_array_index ''_srcId''"
  by (simp add: is_array_index_def is_digit_def)

lemma set_for_in: "set (for_in ob) = set ob"
  by (auto simp: for_in_def)

lemma foldl_cond_idem:
  assumes "\<And>x. f (f x) = f x"
  shows "foldl (\<lambda>a key. if key = k then f a else a) a0 ks = (if k \<in> set ks then f a0 else a0)"
proof (induction ks arbitrary: a0)
  case Nil
  show ?case by simp
next
  case (Cons x xs)
  show ?case using assms by (simp add: Cons.IH)
qed

lemma store_item_eq:
  "store_item uo item =
     (if obj_has item ''_srcId'' then AList.update (srcId_key item) item uo else uo)"
proof -
  have "store_item uo item =
      foldl (\<lambda>a key. if key = ''_srcId'' then AList.update (srcId_key item) item a else a)
        uo (map fst (for_in item))"
    unfolding store_item_def srcId_key_def
    by (rule arg_cong [where f = "\<lambda>g. foldl g uo (map fst (for_in item))"]) (auto simp: fun_eq_iff)
  also have "\<dots> = (if ''_srcId'' \<in> set (map fst (for_in item))
                   then AList.update (srcId_key item) item uo else uo)"
    by (rule foldl_cond_idem) simp
  also have "''_srcId'' \<in> set (map fst (for_in item)) \<longleftrightarrow> obj_has item ''_srcId''"
    by (simp add: set_for_in obj_has_def map_of_eq_None_iff)
  finally show ?thesis .
qed

lemma foldl_store_item:
  "foldl store_item uo items =
     foldl (\<lambda>uo item. AList.update (srcId_key item) item uo) uo
       (filter (\<lambda>item. obj_has item ''_srcId'') items)"
  by (induction items arbitrary: uo) (simp_all add: store_item_eq)

lemma update_keys_first:
  "map fst (foldl (\<lambda>uo it. AList.update (f it) it uo) uo0 xs) =
     map fst uo0 @ filter (\<lambda>k. k \<notin> fst ` set uo0) (first_occurrences (map f xs))"
proof (induction xs arbitrary: uo0)
  case Nil
  show ?case by simp
next
  case (Cons x xs)
  show ?case
  proof (cases "f x \<in> fst ` set uo0")
    case True
    then have "filter (\<lambda>k. k \<notin> fst ` set uo0) (filter (\<lambda>y. y \<noteq> f x) ys) =
               filter (\<lambda>k. k \<notin> fst ` set uo0) ys" for ys
      by (induction ys) auto
    with True show ?thesis
      by (simp add: Cons.IH update_keys dom_update insert_absorb)
  next
    case False
    have "filter (\<lambda>k. k \<noteq> f x \<and> k \<notin> fst ` set uo0) ys =
          filter (\<lambda>k. k \<notin> fst ` set uo0) (filter (\<lambda>y. y \<noteq> f x) ys)" for ys
      by (induction ys) auto
    with False show ?thesis
      by (simp add: Cons.IH update_keys dom_update)
  qed
qed

lemma update_last_value:
  "map_of (foldl (\<lambda>uo it. AList.update (f it) it uo) uo0 xs) k =
     (case filter (\<lambda>x. f x = k) xs of [] \<Rightarrow> map_of uo0 k | y # ys \<Rightarrow> Some (last (y # ys)))"
proof (induction xs arbitrary: uo0)
  case Nil
  show ?case by simp
next
  case (Cons x xs)
  show ?case
    by (cases "filter (\<lambda>x. f x = k) xs") (auto simp: Cons.IH update_conv')
qed

lemma set_first_occurrences [simp]: "set (first_occurrences xs) = set xs"
  by (induction xs) auto

lemma distinct_first_occurrences [simp]: "distinct (first_occurrences xs)"
  by (induction xs) auto

lemma last_filter_prop:
  "filter P xs \<noteq> [] \<Longrightarrow> P (last (filter P xs)) \<and> last (filter P xs) \<in> set xs"
  using last_in_set [of "filter P xs"] by simp

lemma uniqueObj_keys: "map fst (uniqueObj_of items) = first_occurrences (source_keys items)"
  by (simp add: uniqueObj_of_def foldl_store_item update_keys_first source_keys_def)

lemma uniqueObj_value:
  "map_of (uniqueObj_of items) k =
     (case filter (\<lambda>item. obj_has item ''_srcId'' \<and> srcId_key item = k) items of
        [] \<Rightarrow> None | y # ys \<Rightarrow> Some (last (y # ys)))"
  unfolding uniqueObj_of_def foldl_store_item update_last_value
  by (simp split: list.splits)

lemma uniqueObj_entry:
  assumes "(k, s) \<in> set (uniqueObj_of items)"
  shows "filter (\<lambda>item. obj_has item ''_srcId'' \<and> srcId_key item = k) items \<noteq> [] \<and>
         s = last (filter (\<lambda>item. obj_has item ''_srcId'' \<and> srcId_key item = k) items)"
proof -
  have "distinct (map fst (uniqueObj_of items))"
    by (simp add: uniqueObj_keys)
  then have "map_of (uniqueObj_of items) k = Some s"
    using assms by simp
  then show ?thesis
    by (auto simp: uniqueObj_value split: list.splits)
qed

lemma uniqueObj_entry_key:
  assumes "(k, s) \<in> set (uniqueObj_of items)"
  shows "srcId_key s = k \<and> obj_has s ''_srcId'' \<and> s \<in> set items"
  using uniqueObj_entry [OF assms]
    last_filter_prop [of "\<lambda>item. obj_has item ''_srcId'' \<and> srcId_key item = k" items]
  by auto

lemma map_fst_insort_key:
  "map fst (insort_key (\<lambda>p. g (fst p)) x xs) = insort_key g (fst x) (map fst xs)"
  by (induction xs) auto

lemma map_fst_sort_key:
  "map fst (sort_key (\<lambda>p. g (fst p)) xs) = sort_key g (map fst xs)"
  by (induction xs) (simp_all add: map_fst_insort_key)

lemma for_in_keys:
  "map fst (for_in ob) =
     sort_key dec_value (filter is_array_index (map fst ob)) @
     filter (\<lambda>k. \<not> is_array_index k) (map fst ob)"
  by (simp add: for_in_def map_fst_sort_key filter_map comp_def)

lemma uniqueSource_keys:
  "map srcId_key (uniqueSource_of items) =
     sort_key dec_value (filter is_array_index (first_occurrences (source_keys items))) @
     filter (\<lambda>k. \<not> is_array_index k) (first_occurrences (source_keys items))"
proof -
  have "map srcId_key (uniqueSource_of items) = map fst (for_in (uniqueObj_of items))"
    unfolding uniqueSource_of_def map_map
    by (rule map_cong) (auto simp: set_for_in dest: uniqueObj_entry_key)
  then show ?thesis
    by (simp add: for_in_keys uniqueObj_keys)
qed

lemma uniqueSource_representative:
  assumes "s \<in> set (uniqueSource_of items)"
  shows "s = last (filter (\<lambda>item. obj_has item ''_srcId'' \<and> srcId_key item = srcId_key s) items)"
proof -
  from assms obtain k where e: "(k, s) \<in> set (uniqueObj_of items)"
    by (auto simp: uniqueSource_of_def set_for_in)
  with uniqueObj_entry_key [OF e] uniqueObj_entry [OF e] show ?thesis
    by simp
qed




lemma linked_item_key [simp]: "srcId_key (linked_item itemId srcId) = srcId"
  by (simp add: srcId_key_def linked_item_fields)

lemma linked_item_has [simp]: "obj_has (linked_item itemId srcId) ''_srcId''"
  by (simp add: linked_item_def Item_new_has_srcId)

lemma linked_item_eq [simp]:
  "linked_item i s = linked_item i' s' \<longleftrightarrow> i = i' \<and> s = s'"
  by (auto simp: linked_item_def camera_props_def Item_new_def Source_new_def obj_set_def obj_get_def)

lemmas dedup_eval =
  uniqueSource_of_def uniqueObj_of_def store_item_eq for_in_def is_array_index_def is_digit_def
  dec_value_def source_keys_def




lemma Promise_all_map_Inr: "Promise_all (map Inr xs) = Inr xs"
  by (induction xs) simp_all

lemma Promise_all_Inr: "Promise_all ps = Inr xs \<longleftrightarrow> ps = map Inr xs"
proof
  show "Promise_all ps = Inr xs \<Longrightarrow> ps = map Inr xs"
    by (induction ps arbitrary: xs rule: Promise_all.induct) (auto split: sum.splits)
next
  show "ps = map Inr xs \<Longrightarrow> Promise_all ps = Inr xs"
    by (simp add: Promise_all_map_Inr)
qed

text \<open>
  When \<^verbatim>\<open>Item.getSource\<close> resolves, the enumeration has resolved with a list of items,
  and the results are, in order, the classifications of the deduplicated sources of
  that list.
\<close>

lemma getSource_classifies_unique_sources:
  assumes "Item_getSource s2n h = (calls, Resolved results)"
  shows "\<exists>items. Source_getItemList h = (calls, Resolved items) \<and>
           map (typePromise s2n) (uniqueSource_of items) = map Inr results"
  using assms
  by (auto simp: Item_getSource_def Promise_all_Inr split: if_splits prod.splits promise.splits sum.splits)

text \<open>
  A run on the sample host: four ids, one stale, two of the three items found linked to
  one source.  The two records are those of the last item of each source; both are
  cameras (type LIVE), and both come out as a plain \<^verbatim>\<open>Source\<close>.
\<close>

lemma camera_props_type:
  "Number decimal_str2num (obj_get (camera_props itemId srcId) ''type'') = ItemTypes_num LIVE"
  by (simp add: camera_props_def obj_get_def decimal_str2num_def is_digit_def dec_value_def)

lemma typePromise_linked_item:
  "typePromise decimal_str2num (linked_item itemId srcId) =
     Inr (Source (JObj (camera_props itemId srcId)))"
  unfolding linked_item_def by (rule typePromise_Item_new_LIVE [OF camera_props_type])

lemma plugin_host_items:
  "Source_getItemList plugin_host =
     ([Get ''itemlist'' JUndefined, SearchItemsById (JStr ''{A1}''),
       SearchItemsById (JStr ''{A2}''), SearchItemsById (JStr ''{A3}''),
       SearchItemsById (JStr ''{A4}'')],
      Resolved [linked_item ''{A1}'' ''{S1}'', linked_item ''{A3}'' ''{S1}'',
                linked_item ''{A4}'' ''{S2}''])"
  by (simp add: enum_defs host_defs)

lemma plugin_host_unique:
  "uniqueSource_of [linked_item ''{A1}'' ''{S1}'', linked_item ''{A3}'' ''{S1}'',
                    linked_item ''{A4}'' ''{S2}''] =
     [linked_item ''{A3}'' ''{S1}'', linked_item ''{A4}'' ''{S2}'']"
  by (simp add: dedup_eval)

lemma plugin_host_getSource:
  "Item_getSource decimal_str2num plugin_host =
     ([Get ''itemlist'' JUndefined, SearchItemsById (JStr ''{A1}''),
       SearchItemsById (JStr ''{A2}''), SearchItemsById (JStr ''{A3}''),
       SearchItemsById (JStr ''{A4}'')],
      Resolved [Source (JObj (camera_props ''{A3}'' ''{S1}'')),
                Source (JObj (camera_props ''{A4}'' ''{S2}''))])"
proof -
  have c: "\<not> isExtension plugin_host" "isSourcePlugin plugin_host"
    by (simp_all add: host_defs)
  show ?thesis
    unfolding Item_getSource_def plugin_host_items
    by (simp add: c plugin_host_unique typePromise_linked_item)
qed

lemma getSource_classifies_unique_sources_run:
  "\<exists>items.
     Source_getItemList plugin_host =
       ([Get ''itemlist'' JUndefined, SearchItemsById (JStr ''{A1}''),
         SearchItemsById (JStr ''{A2}''), SearchItemsById (JStr ''{A3}''),
         SearchItemsById (JStr ''{A4}'')], Resolved items) \<and>
     map (typePromise decimal_str2num) (uniqueSource_of items) =
       map Inr [Source (JObj (camera_props ''{A3}'' ''{S1}'')),
                Source (JObj (camera_props ''{A4}'' ''{S2}''))]"
  by (rule getSource_classifies_unique_sources [OF plugin_host_getSource])

end
